theory Spec2Isabelle
  imports Complex_Main "HOL-Library.Multiset"
begin

section \<open>The BAC estimator of bac\_app.py\<close>

text \<open>
  The embedding follows \<^verbatim>\<open>src/bac_app.py\<close>. A Python \<^verbatim>\<open>float\<close> is a value of
  \<^typ>\<open>real\<close>. The arithmetic of \<^verbatim>\<open>calculate_bac_value\<close> is taken exactly, so the theorems
  about it speak about the values of the formula. The total of line 142 is taken with the
  rounding of double precision after every operation, since the order of its additions
  decides what it returns. Python's \<^verbatim>\<open>int\<close> is \<^typ>\<open>int\<close>. An exception is a value
  \<open>Inl e\<close> of a sum type.
\<close>

subsection \<open>Constants (lines 5 to 10)\<close>

definition MALE_R :: real where
  "MALE_R = 0.73"

definition FEMALE_R :: real where
  "FEMALE_R = 0.66"

definition WIDMARK_FACTOR :: real where
  "WIDMARK_FACTOR = 5.14"

definition METABOLISM_RATE_PER_HOUR :: real where
  "METABOLISM_RATE_PER_HOUR = 0.015"

definition REFRESH_INTERVAL_SECONDS :: real where
  "REFRESH_INTERVAL_SECONDS = 10"

datatype py_error = IndexError | ZeroDivisionError

subsection \<open>calculate\_bac\_value (lines 13 to 24)\<close>

text \<open>
  The early return comes first, as in the source, so that no division happens when there
  is no alcohol. A float division by zero raises \<^verbatim>\<open>ZeroDivisionError\<close> in Python.
  The locals \<^verbatim>\<open>peak_bac\<close> and \<^verbatim>\<open>current_bac\<close> are functions of the arguments.
  \<^verbatim>\<open>max(x, y)\<close> keeps its first argument unless the second is greater.
\<close>

definition peak_bac :: "real \<Rightarrow> real \<Rightarrow> real \<Rightarrow> real \<Rightarrow> real" where
  "peak_bac total_alcohol_oz weight_lbs r_value food_factor =
     (total_alcohol_oz * WIDMARK_FACTOR / (weight_lbs * r_value)) * food_factor"

definition current_bac :: "real \<Rightarrow> real \<Rightarrow> real \<Rightarrow> real \<Rightarrow> real \<Rightarrow> real" where
  "current_bac total_alcohol_oz weight_lbs r_value food_factor current_elapsed_hours =
     peak_bac total_alcohol_oz weight_lbs r_value food_factor
       - (METABOLISM_RATE_PER_HOUR * current_elapsed_hours)"

definition py_max :: "real \<Rightarrow> real \<Rightarrow> real" where
  "py_max x y = (if y > x then y else x)"

definition calculate_bac_value :: "real \<Rightarrow> real \<Rightarrow> real \<Rightarrow> real \<Rightarrow> real \<Rightarrow> py_error + real" where
  "calculate_bac_value total_alcohol_oz weight_lbs r_value food_factor current_elapsed_hours =
     (if total_alcohol_oz \<le> 0 then Inr 0.0
      else if weight_lbs * r_value = 0 then Inl ZeroDivisionError
      else Inr (py_max 0.0
             (current_bac total_alcohol_oz weight_lbs r_value food_factor current_elapsed_hours)))"

subsection \<open>get\_bac\_status (lines 26 to 35)\<close>

text \<open>
  The result is the triple (message, color, icon). The icons are not ASCII; each is given
  by the bytes of its UTF-8 encoding.
\<close>

definition icon_danger :: string where
  "icon_danger = [CHR 0xF0, CHR 0x9F, CHR 0x9A, CHR 0xA8]"

definition icon_warning :: string where
  "icon_warning = [CHR 0xE2, CHR 0x9A, CHR 0xA0, CHR 0xEF, CHR 0xB8, CHR 0x8F]"

definition icon_info :: string where
  "icon_info = [CHR 0xE2, CHR 0x9C, CHR 0x85]"

definition icon_success :: string where
  "icon_success = [CHR 0xF0, CHR 0x9F, CHR 0xA7, CHR 0x98]"

definition get_bac_status :: "real \<Rightarrow> string \<times> string \<times> string" where
  "get_bac_status bac =
     (if bac \<ge> 0.08 then (''Legal Limit Exceeded - DO NOT DRIVE!'', ''danger'', icon_danger)
      else if bac \<ge> 0.05 then (''Impaired - Avoid risky activities!'', ''warning'', icon_warning)
      else if bac > 0.0 then (''Some effects present - Drink responsibly.'', ''info'', icon_info)
      else (''Sober - Enjoy responsibly!'', ''success'', icon_success))"

subsection \<open>Session state (lines 38 to 47)\<close>

text \<open>
  A drink is the dictionary \<^verbatim>\<open>{"volume": v, "abv": a}\<close>. A \<^verbatim>\<open>datetime\<close> is counted in
  microseconds, its resolution; \<^verbatim>\<open>None\<close> is \<open>None\<close>.
\<close>

record drink =
  volume :: real
  abv :: real

type_synonym datetime = int

record session_state =
  drinks :: "drink list"
  start_monitoring :: bool
  monitoring_start_time :: "datetime option"
  first_drink_offset_hours :: real
  last_calculated_bac_time :: "datetime option"

text \<open>A fresh session has none of the keys, so every initialisation runs.\<close>

definition init_session_state :: session_state where
  "init_session_state =
     \<lparr>drinks = [], start_monitoring = False, monitoring_start_time = None,
      first_drink_offset_hours = 0.0, last_calculated_bac_time = None\<rparr>"

subsection \<open>Sidebar inputs (lines 62 to 96)\<close>

datatype gender = Male | Female

definition r_of :: "gender \<Rightarrow> real" where
  "r_of g = (if g = Male then MALE_R else FEMALE_R)"

datatype food = Empty_Stomach | Light_Meal | Heavy_Meal

definition food_factor_of :: "food \<Rightarrow> real" where
  "food_factor_of fd = (if fd = Empty_Stomach then 1.0 else if fd = Light_Meal then 0.8 else 0.5)"

text \<open>
  A \<^verbatim>\<open>number_input\<close> with \<^verbatim>\<open>min_value\<close> and \<^verbatim>\<open>max_value\<close> only hands out values
  between the two.
\<close>

definition number_input :: "real \<Rightarrow> real \<Rightarrow> real \<Rightarrow> real option" where
  "number_input min_value max_value v = (if min_value \<le> v \<and> v \<le> max_value then Some v else None)"

definition weight_input :: "real \<Rightarrow> real option" where
  "weight_input v = number_input 50.0 500.0 v"

definition set_first_drink_offset_hours :: "real \<Rightarrow> session_state \<Rightarrow> session_state option" where
  "set_first_drink_offset_hours v s =
     (case number_input 0.0 24.0 v of
        None \<Rightarrow> None
      | Some x \<Rightarrow> Some (s\<lparr>first_drink_offset_hours := x\<rparr>))"

subsection \<open>The drink list (lines 100 to 134)\<close>

definition add_drink_callback :: "session_state \<Rightarrow> session_state" where
  "add_drink_callback s = s\<lparr>drinks := drinks s @ [\<lparr>volume = 0.0, abv = 0.0\<rparr>]\<rparr>"

text \<open>
  \<^verbatim>\<open>list.pop(index)\<close>: an empty list raises; a negative index counts from the end; an
  index that is still out of range raises; otherwise the element is taken out and
  returned.
\<close>

definition list_pop :: "'a list \<Rightarrow> int \<Rightarrow> py_error + ('a \<times> 'a list)" where
  "list_pop xs index =
     (let n = int (length xs);
          i = (if index < 0 then index + n else index)
      in if n = 0 then Inl IndexError
         else if i < 0 \<or> i \<ge> n then Inl IndexError
         else Inr (xs ! nat i, take (nat i) xs @ drop (Suc (nat i)) xs))"

definition remove_drink_callback :: "int \<Rightarrow> session_state \<Rightarrow> py_error + session_state" where
  "remove_drink_callback index s =
     (if index < int (length (drinks s)) then
        (case list_pop (drinks s) index of
           Inl e \<Rightarrow> Inl e
         | Inr (x, rest) \<Rightarrow> Inr (s\<lparr>drinks := rest\<rparr>))
      else Inr s)"

text \<open>
  The two number inputs of drink \<open>i\<close> (lines 115 and 124) write the field of the
  \<open>i\<close>-th dictionary; the widgets exist for the indices of the list only.
\<close>

definition set_drink_volume :: "nat \<Rightarrow> real \<Rightarrow> session_state \<Rightarrow> session_state option" where
  "set_drink_volume i v s =
     (if i < length (drinks s) then
        (case number_input 0.0 40.0 v of
           None \<Rightarrow> None
         | Some x \<Rightarrow> Some (s\<lparr>drinks := (drinks s)[i := (drinks s ! i)\<lparr>volume := x\<rparr>]\<rparr>))
      else None)"

definition set_drink_abv :: "nat \<Rightarrow> real \<Rightarrow> session_state \<Rightarrow> session_state option" where
  "set_drink_abv i v s =
     (if i < length (drinks s) then
        (case number_input 0.0 100.0 v of
           None \<Rightarrow> None
         | Some x \<Rightarrow> Some (s\<lparr>drinks := (drinks s)[i := (drinks s ! i)\<lparr>abv := x\<rparr>]\<rparr>))
      else None)"

subsection \<open>Double precision\<close>

text \<open>
  A double has a significand of 53 bits; below \<open>2 powi (- 1022)\<close> the spacing stays
  \<open>2 powi (- 1074)\<close>. An operation on doubles returns the exact result rounded to the nearest
  double, a tie going to the even significand. Overflow to infinity is not part of the
  model: the inputs of the program are bounded (volume at most 40, ABV at most 100).
\<close>

definition round_half_even :: "real \<Rightarrow> int" where
  "round_half_even y =
     (let n = \<lfloor>y\<rfloor>; d = y - of_int n
      in if d < 1 / 2 then n else if 1 / 2 < d then n + 1 else if even n then n else n + 1)"

definition double_exponent :: "real \<Rightarrow> int" where
  "double_exponent x = max (- 1022) \<lfloor>log 2 \<bar>x\<bar>\<rfloor>"

definition round_double :: "real \<Rightarrow> real" where
  "round_double x =
     (if x = 0 then 0
      else of_int (round_half_even (x / 2 powi (double_exponent x - 52)))
             * 2 powi (double_exponent x - 52))"

definition float_add :: "real \<Rightarrow> real \<Rightarrow> real" where
  "float_add x y = round_double (x + y)"

definition float_mul :: "real \<Rightarrow> real \<Rightarrow> real" where
  "float_mul x y = round_double (x * y)"

definition float_div :: "real \<Rightarrow> real \<Rightarrow> real" where
  "float_div x y = round_double (x / y)"

subsection \<open>Total alcohol (line 142)\<close>

text \<open>
  \<^verbatim>\<open>sum\<close> starts from 0 and adds the items from left to right, each addition a float
  addition (the plain loop of CPython up to 3.11; the compensation term that later versions
  carry along is not modelled). The item of a drink is \<^verbatim>\<open>drink["volume"] * (drink["abv"] / 100)\<close>; its divisor
  is the constant 100, so the division never raises.
\<close>

definition py_sum :: "real list \<Rightarrow> real" where
  "py_sum xs = foldl float_add 0 xs"

definition drink_alcohol :: "drink \<Rightarrow> real" where
  "drink_alcohol drink = float_mul (volume drink) (float_div (abv drink) 100)"

definition total_alcohol_oz :: "drink list \<Rightarrow> real" where
  "total_alcohol_oz ds = py_sum (map drink_alcohol ds)"

text \<open>
  The total alcohol in the words of the specification: the sum over all drinks of
  \<open>volume_oz * abv_percent / 100\<close>, in exact arithmetic.
\<close>

definition spec_total_alcohol :: "drink list \<Rightarrow> real" where
  "spec_total_alcohol ds = (\<Sum>d\<leftarrow>ds. volume d * abv d / 100)"

text \<open>
  The values the two number inputs of a drink hand out (lines 117 to 118 and 126 to 127),
  and the bound on the rounding error of the total of \<open>n\<close> such drinks whose exact total
  is \<open>S\<close>.
\<close>

definition drink_in_range :: "drink \<Rightarrow> bool" where
  "drink_in_range d = (0 \<le> volume d \<and> volume d \<le> 40 \<and> 0 \<le> abv d \<and> abv d \<le> 100)"

definition unit_roundoff :: real where
  "unit_roundoff = 1 / 2 ^ 53"

definition underflow_unit :: real where
  "underflow_unit = 1 / 2 ^ 1075"

definition total_alcohol_error_bound :: "nat \<Rightarrow> real \<Rightarrow> real" where
  "total_alcohol_error_bound n S =
     ((1 + unit_roundoff) ^ (n + 2) - 1) * S
       + 43 * real n * (1 + unit_roundoff) ^ n * underflow_unit"

subsection \<open>Start and Stop Monitoring (lines 149 to 161)\<close>

text \<open>
  Each button is a guard (\<^verbatim>\<open>disabled=...\<close>) and a body. A disabled button cannot be
  clicked: the click is \<open>None\<close>. The start body reads the clock twice.
\<close>

definition start_disabled :: "session_state \<Rightarrow> bool" where
  "start_disabled s = (total_alcohol_oz (drinks s) = 0 \<or> start_monitoring s)"

definition start_handler :: "datetime \<Rightarrow> datetime \<Rightarrow> session_state \<Rightarrow> session_state" where
  "start_handler now now2 s =
     s\<lparr>start_monitoring := True, monitoring_start_time := Some now,
       last_calculated_bac_time := Some now2\<rparr>"

definition start_button :: "datetime \<Rightarrow> datetime \<Rightarrow> session_state \<Rightarrow> session_state option" where
  "start_button now now2 s = (if start_disabled s then None else Some (start_handler now now2 s))"

definition stop_disabled :: "session_state \<Rightarrow> bool" where
  "stop_disabled s = (\<not> start_monitoring s)"

definition stop_handler :: "session_state \<Rightarrow> session_state" where
  "stop_handler s =
     s\<lparr>start_monitoring := False, monitoring_start_time := None,
       last_calculated_bac_time := None\<rparr>"

definition stop_button :: "session_state \<Rightarrow> session_state option" where
  "stop_button s = (if stop_disabled s then None else Some (stop_handler s))"

subsection \<open>The monitoring loop (lines 169 to 213)\<close>

definition total_seconds :: "datetime \<Rightarrow> datetime \<Rightarrow> real" where
  "total_seconds t1 t0 = real_of_int (t1 - t0) / 1000000"

text \<open>
  The loop body runs when monitoring is on and a start time is stored. It first computes
  the seconds since the start of monitoring and, from them and the offset, the total
  elapsed hours.
\<close>

definition time_since_monitor_start :: "session_state \<Rightarrow> datetime \<Rightarrow> real option" where
  "time_since_monitor_start s current_time =
     (case monitoring_start_time s of
        None \<Rightarrow> None
      | Some t0 \<Rightarrow> if start_monitoring s then Some (total_seconds current_time t0) else None)"

definition total_elapsed_hours :: "session_state \<Rightarrow> datetime \<Rightarrow> real option" where
  "total_elapsed_hours s current_time =
     (case time_since_monitor_start s current_time of
        None \<Rightarrow> None
      | Some secs \<Rightarrow> Some (first_drink_offset_hours s + secs / 3600.0))"

subsection \<open>The operations on the session\<close>

datatype event =
    Add_Drink
  | Remove_Drink int
  | Set_Volume nat real
  | Set_Abv nat real
  | Set_Offset real
  | Start_Monitoring datetime datetime
  | Stop_Monitoring

text \<open>
  One user action. \<open>None\<close>: the widget does not offer the action, or the callback raised
  (\<^verbatim>\<open>pop\<close> raises before it changes the list).
\<close>

fun step :: "event \<Rightarrow> session_state \<Rightarrow> session_state option" where
  "step Add_Drink s = Some (add_drink_callback s)"
| "step (Remove_Drink i) s = (case remove_drink_callback i s of Inl e \<Rightarrow> None | Inr s' \<Rightarrow> Some s')"
| "step (Set_Volume i v) s = set_drink_volume i v s"
| "step (Set_Abv i v) s = set_drink_abv i v s"
| "step (Set_Offset v) s = set_first_drink_offset_hours v s"
| "step (Start_Monitoring now now2) s = start_button now now2 s"
| "step Stop_Monitoring s = stop_button s"

inductive reachable :: "session_state \<Rightarrow> bool" where
  reachable_init: "reachable init_session_state"
| reachable_step: "reachable s \<Longrightarrow> step e s = Some s' \<Longrightarrow> reachable s'"

text \<open>The invariant of the monitoring fields: a start time is stored iff monitoring is on.\<close>

definition monitoring_invariant :: "session_state \<Rightarrow> bool" where
  "monitoring_invariant s = ((monitoring_start_time s \<noteq> None) = start_monitoring s)"

section \<open>Theorems\<close>

subsection \<open>The formula\<close>

lemma calculate_bac_value_no_alcohol:
  "alc \<le> 0 \<Longrightarrow> calculate_bac_value alc w r f h = Inr 0"
  by (simp add: calculate_bac_value_def)

lemma calculate_bac_value_formula:
  "0 < alc \<Longrightarrow> 0 < w \<Longrightarrow> 0 < r \<Longrightarrow>
     calculate_bac_value alc w r f h =
       Inr (max 0 (alc * 5.14 / (w * r) * f - 0.015 * h))"
  by (simp add: calculate_bac_value_def current_bac_def peak_bac_def py_max_def
      WIDMARK_FACTOR_def METABOLISM_RATE_PER_HOUR_def max_def)

text \<open>
  C1. With no alcohol (\<open>total_alcohol_oz \<le> 0\<close>) the result is 0.0 whatever the other
  arguments are. With alcohol, a positive weight and a positive r value the result is
  \<open>max 0 (total_alcohol_oz * 5.14 / (weight_lbs * r_value) * food_factor - 0.015 * elapsed_hours)\<close>.
\<close>

theorem C1_calculate_bac_value:
  "(alc \<le> 0 \<longrightarrow> calculate_bac_value alc w r f h = Inr 0) \<and>
   (0 < alc \<and> 0 < w \<and> 0 < r \<longrightarrow>
      calculate_bac_value alc w r f h =
        Inr (max 0 (alc * 5.14 / (w * r) * f - 0.015 * h)))"
  using calculate_bac_value_no_alcohol calculate_bac_value_formula by blast

theorem C1_calculate_bac_value_witness:
  "calculate_bac_value 0 160 0.73 1 5 = Inr 0 \<and>
   calculate_bac_value (-2) 0 0 1 5 = Inr 0 \<and>
   calculate_bac_value 1 160 0.73 1 0 = Inr (257 / 5840) \<and>
   calculate_bac_value 2 160 0.73 0.8 1 = Inr (809 / 14600)"
  using C1_calculate_bac_value [of 0 160 "0.73" 1 5]
        C1_calculate_bac_value [of "-2" 0 0 1 5]
        C1_calculate_bac_value [of 1 160 "0.73" 1 0]
        C1_calculate_bac_value [of 2 160 "0.73" "0.8" 1]
  by simp

text \<open>
  C9. One ounce of alcohol, 160 lbs, the male r value 0.73, an empty stomach and three
  hours: before the clamp the value is \<open>- 29 / 29200\<close>, about \<open>- 0.001\<close>; the function
  returns 0.0, and the status of that result is the sober one, with color "success".
\<close>

theorem C9_scenario_two:
  "calculate_bac_value 1.0 160 MALE_R 1.0 3 = Inr 0.0 \<and>
   current_bac 1.0 160 MALE_R 1.0 3 = - (29 / 29200) \<and>
   \<bar>current_bac 1.0 160 MALE_R 1.0 3 - (- 0.001)\<bar> < 0.00001 \<and>
   map_sum id get_bac_status (calculate_bac_value 1.0 160 MALE_R 1.0 3) =
     Inr (''Sober - Enjoy responsibly!'', ''success'', icon_success)"
  by (simp add: calculate_bac_value_def current_bac_def peak_bac_def py_max_def
      WIDMARK_FACTOR_def METABOLISM_RATE_PER_HOUR_def MALE_R_def get_bac_status_def)

subsection \<open>The status\<close>

text \<open>
  C2. For a BAC of at least 0 the four outcomes correspond to the four intervals
  \<open>[0.08, \<infinity>)\<close>, \<open>[0.05, 0.08)\<close>, \<open>(0, 0.05)\<close> and \<open>{0}\<close>, each outcome exactly on its
  interval, so that the boundaries 0.08 and 0.05 fall to the more severe side. The
  severity is the second component (the color), the message the first.
\<close>

theorem C2_get_bac_status:
  "0 \<le> bac \<Longrightarrow>
   (0.08 \<le> bac \<longleftrightarrow>
      get_bac_status bac = (''Legal Limit Exceeded - DO NOT DRIVE!'', ''danger'', icon_danger)) \<and>
   (0.05 \<le> bac \<and> bac < 0.08 \<longleftrightarrow>
      get_bac_status bac = (''Impaired - Avoid risky activities!'', ''warning'', icon_warning)) \<and>
   (0 < bac \<and> bac < 0.05 \<longleftrightarrow>
      get_bac_status bac = (''Some effects present - Drink responsibly.'', ''info'', icon_info)) \<and>
   (bac = 0 \<longleftrightarrow>
      get_bac_status bac = (''Sober - Enjoy responsibly!'', ''success'', icon_success))"
  by (simp add: get_bac_status_def)

theorem C2_get_bac_status_witness:
  "get_bac_status 0.08 = (''Legal Limit Exceeded - DO NOT DRIVE!'', ''danger'', icon_danger) \<and>
   get_bac_status 0.05 = (''Impaired - Avoid risky activities!'', ''warning'', icon_warning) \<and>
   get_bac_status 0.0499 = (''Some effects present - Drink responsibly.'', ''info'', icon_info) \<and>
   get_bac_status 0 = (''Sober - Enjoy responsibly!'', ''success'', icon_success)"
  using C2_get_bac_status [of "0.08"] C2_get_bac_status [of "0.05"]
        C2_get_bac_status [of "0.0499"] C2_get_bac_status [of 0]
  by simp

subsection \<open>Removing a drink\<close>

lemma list_pop_in_range:
  "0 \<le> i \<Longrightarrow> i < int (length xs) \<Longrightarrow>
     list_pop xs i = Inr (xs ! nat i, take (nat i) xs @ drop (Suc (nat i)) xs)"
  by (auto simp: list_pop_def Let_def)

lemma list_pop_negative:
  "i < 0 \<Longrightarrow> - int (length xs) \<le> i \<Longrightarrow>
     list_pop xs i = Inr (xs ! nat (i + int (length xs)),
       take (nat (i + int (length xs))) xs @ drop (Suc (nat (i + int (length xs)))) xs)"
  by (auto simp: list_pop_def Let_def)

text \<open>
  C3, amended to the indices that are not negative. For \<open>0 \<le> index\<close> the callback
  removes the element at \<open>index\<close> when \<open>index < length\<close>, and otherwise returns the
  state as it is, without an error.
\<close>

theorem C3_remove_drink_nonnegative:
  "0 \<le> index \<Longrightarrow>
     remove_drink_callback index s =
       Inr (if index < int (length (drinks s))
            then s\<lparr>drinks := take (nat index) (drinks s) @ drop (Suc (nat index)) (drinks s)\<rparr>
            else s)"
  by (simp add: remove_drink_callback_def list_pop_in_range)

theorem C3_remove_drink_nonnegative_witness:
  "remove_drink_callback 5
     \<lparr>drinks = [\<lparr>volume = 12, abv = 5\<rparr>, \<lparr>volume = 1.5, abv = 40\<rparr>], start_monitoring = False,
      monitoring_start_time = None, first_drink_offset_hours = 0, last_calculated_bac_time = None\<rparr>
   = Inr \<lparr>drinks = [\<lparr>volume = 12, abv = 5\<rparr>, \<lparr>volume = 1.5, abv = 40\<rparr>], start_monitoring = False,
      monitoring_start_time = None, first_drink_offset_hours = 0, last_calculated_bac_time = None\<rparr> \<and>
   remove_drink_callback 2
     \<lparr>drinks = [\<lparr>volume = 12, abv = 5\<rparr>, \<lparr>volume = 1.5, abv = 40\<rparr>], start_monitoring = False,
      monitoring_start_time = None, first_drink_offset_hours = 0, last_calculated_bac_time = None\<rparr>
   = Inr \<lparr>drinks = [\<lparr>volume = 12, abv = 5\<rparr>, \<lparr>volume = 1.5, abv = 40\<rparr>], start_monitoring = False,
      monitoring_start_time = None, first_drink_offset_hours = 0, last_calculated_bac_time = None\<rparr> \<and>
   remove_drink_callback 0
     \<lparr>drinks = [\<lparr>volume = 12, abv = 5\<rparr>, \<lparr>volume = 1.5, abv = 40\<rparr>], start_monitoring = False,
      monitoring_start_time = None, first_drink_offset_hours = 0, last_calculated_bac_time = None\<rparr>
   = Inr \<lparr>drinks = [\<lparr>volume = 1.5, abv = 40\<rparr>], start_monitoring = False,
      monitoring_start_time = None, first_drink_offset_hours = 0, last_calculated_bac_time = None\<rparr> \<and>
   remove_drink_callback 1
     \<lparr>drinks = [\<lparr>volume = 12, abv = 5\<rparr>, \<lparr>volume = 1.5, abv = 40\<rparr>], start_monitoring = False,
      monitoring_start_time = None, first_drink_offset_hours = 0, last_calculated_bac_time = None\<rparr>
   = Inr \<lparr>drinks = [\<lparr>volume = 12, abv = 5\<rparr>], start_monitoring = False,
      monitoring_start_time = None, first_drink_offset_hours = 0, last_calculated_bac_time = None\<rparr>"
  using
    C3_remove_drink_nonnegative [of 5
      "\<lparr>drinks = [\<lparr>volume = 12, abv = 5\<rparr>, \<lparr>volume = 1.5, abv = 40\<rparr>], start_monitoring = False,
        monitoring_start_time = None, first_drink_offset_hours = 0, last_calculated_bac_time = None\<rparr>"]
    C3_remove_drink_nonnegative [of 2
      "\<lparr>drinks = [\<lparr>volume = 12, abv = 5\<rparr>, \<lparr>volume = 1.5, abv = 40\<rparr>], start_monitoring = False,
        monitoring_start_time = None, first_drink_offset_hours = 0, last_calculated_bac_time = None\<rparr>"]
    C3_remove_drink_nonnegative [of 0
      "\<lparr>drinks = [\<lparr>volume = 12, abv = 5\<rparr>, \<lparr>volume = 1.5, abv = 40\<rparr>], start_monitoring = False,
        monitoring_start_time = None, first_drink_offset_hours = 0, last_calculated_bac_time = None\<rparr>"]
    C3_remove_drink_nonnegative [of 1
      "\<lparr>drinks = [\<lparr>volume = 12, abv = 5\<rparr>, \<lparr>volume = 1.5, abv = 40\<rparr>], start_monitoring = False,
        monitoring_start_time = None, first_drink_offset_hours = 0, last_calculated_bac_time = None\<rparr>"]
  by simp

text \<open>
  The claim C3 as written fails at a negative index: on two drinks the index \<open>- 1\<close>
  removes the last drink, and the index \<open>- 3\<close> raises.
\<close>

theorem C3_negative_index_counterexample:
  "remove_drink_callback (- 1)
     \<lparr>drinks = [\<lparr>volume = 12, abv = 5\<rparr>, \<lparr>volume = 1.5, abv = 40\<rparr>], start_monitoring = False,
      monitoring_start_time = None, first_drink_offset_hours = 0, last_calculated_bac_time = None\<rparr>
   = Inr \<lparr>drinks = [\<lparr>volume = 12, abv = 5\<rparr>], start_monitoring = False,
      monitoring_start_time = None, first_drink_offset_hours = 0, last_calculated_bac_time = None\<rparr> \<and>
   remove_drink_callback (- 1)
     \<lparr>drinks = [\<lparr>volume = 12, abv = 5\<rparr>, \<lparr>volume = 1.5, abv = 40\<rparr>], start_monitoring = False,
      monitoring_start_time = None, first_drink_offset_hours = 0, last_calculated_bac_time = None\<rparr>
   \<noteq> Inr \<lparr>drinks = [\<lparr>volume = 12, abv = 5\<rparr>, \<lparr>volume = 1.5, abv = 40\<rparr>], start_monitoring = False,
      monitoring_start_time = None, first_drink_offset_hours = 0, last_calculated_bac_time = None\<rparr> \<and>
   remove_drink_callback (- 3)
     \<lparr>drinks = [\<lparr>volume = 12, abv = 5\<rparr>, \<lparr>volume = 1.5, abv = 40\<rparr>], start_monitoring = False,
      monitoring_start_time = None, first_drink_offset_hours = 0, last_calculated_bac_time = None\<rparr>
   = Inl IndexError"
  by (simp add: remove_drink_callback_def list_pop_def)

text \<open>
  C10. On a list of \<open>n \<ge> 1\<close> drinks an index \<open>i\<close> with \<open>- n \<le> i \<le> - 1\<close> is not a no-op:
  the callback removes the element at position \<open>n + i\<close>, the list gets shorter by one, and
  \<open>i = - 1\<close> removes the last drink.
\<close>

theorem C10_remove_drink_negative_index:
  "drinks s \<noteq> [] \<Longrightarrow> - int (length (drinks s)) \<le> i \<Longrightarrow> i \<le> - 1 \<Longrightarrow>
     (let n = length (drinks s);
          k = nat (int n + i);
          rest = take k (drinks s) @ drop (Suc k) (drinks s)
      in remove_drink_callback i s = Inr (s\<lparr>drinks := rest\<rparr>) \<and>
         remove_drink_callback i s \<noteq> Inr s \<and>
         k < n \<and> Suc (length rest) = n \<and>
         (i = - 1 \<longrightarrow> rest = butlast (drinks s)))"
proof -
  assume ne: "drinks s \<noteq> []" and lo: "- int (length (drinks s)) \<le> i" and hi: "i \<le> - 1"
  define n where "n = length (drinks s)"
  define k where "k = nat (int n + i)"
  define rest where "rest = take k (drinks s) @ drop (Suc k) (drinks s)"
  have k_lt: "k < n"
    using lo hi by (simp add: k_def n_def)
  have pop: "list_pop (drinks s) i = Inr (drinks s ! k, rest)"
    using list_pop_negative [of i "drinks s"] lo hi
    by (simp add: k_def n_def rest_def add.commute)
  have cb: "remove_drink_callback i s = Inr (s\<lparr>drinks := rest\<rparr>)"
    using hi pop by (simp add: remove_drink_callback_def)
  have len: "Suc (length rest) = n"
    using k_lt by (simp add: rest_def n_def min_def)
  have "rest \<noteq> drinks s"
    using len by (auto simp: n_def)
  then have changed: "remove_drink_callback i s \<noteq> Inr s"
    by (metis cb sum.inject(2) session_state.select_convs(1) session_state.surjective
        session_state.update_convs(1))
  have last: "rest = butlast (drinks s)" if "i = - 1"
  proof -
    have "k = n - 1" using that ne by (simp add: k_def n_def)
    then show ?thesis
      using ne by (simp add: rest_def n_def butlast_conv_take)
  qed
  show ?thesis
    unfolding Let_def
    using cb changed k_lt len last
    unfolding rest_def k_def n_def
    by blast
qed

theorem C10_remove_drink_negative_index_witness:
  "remove_drink_callback (- 1)
     \<lparr>drinks = [\<lparr>volume = 12, abv = 5\<rparr>, \<lparr>volume = 1.5, abv = 40\<rparr>, \<lparr>volume = 5, abv = 12\<rparr>],
      start_monitoring = False, monitoring_start_time = None, first_drink_offset_hours = 0,
      last_calculated_bac_time = None\<rparr>
   = Inr \<lparr>drinks = [\<lparr>volume = 12, abv = 5\<rparr>, \<lparr>volume = 1.5, abv = 40\<rparr>],
      start_monitoring = False, monitoring_start_time = None, first_drink_offset_hours = 0,
      last_calculated_bac_time = None\<rparr> \<and>
   remove_drink_callback (- 3)
     \<lparr>drinks = [\<lparr>volume = 12, abv = 5\<rparr>, \<lparr>volume = 1.5, abv = 40\<rparr>, \<lparr>volume = 5, abv = 12\<rparr>],
      start_monitoring = False, monitoring_start_time = None, first_drink_offset_hours = 0,
      last_calculated_bac_time = None\<rparr>
   = Inr \<lparr>drinks = [\<lparr>volume = 1.5, abv = 40\<rparr>, \<lparr>volume = 5, abv = 12\<rparr>],
      start_monitoring = False, monitoring_start_time = None, first_drink_offset_hours = 0,
      last_calculated_bac_time = None\<rparr>"
  using
    C10_remove_drink_negative_index [of
      "\<lparr>drinks = [\<lparr>volume = 12, abv = 5\<rparr>, \<lparr>volume = 1.5, abv = 40\<rparr>, \<lparr>volume = 5, abv = 12\<rparr>],
        start_monitoring = False, monitoring_start_time = None, first_drink_offset_hours = 0,
        last_calculated_bac_time = None\<rparr>" "- 1"]
    C10_remove_drink_negative_index [of
      "\<lparr>drinks = [\<lparr>volume = 12, abv = 5\<rparr>, \<lparr>volume = 1.5, abv = 40\<rparr>, \<lparr>volume = 5, abv = 12\<rparr>],
        start_monitoring = False, monitoring_start_time = None, first_drink_offset_hours = 0,
        last_calculated_bac_time = None\<rparr>" "- 3"]
  by (simp add: Let_def)

subsection \<open>Monotonicity of the formula\<close>

lemma calculate_bac_value_returns:
  "0 < w \<Longrightarrow> 0 < r \<Longrightarrow>
     calculate_bac_value a w r f h = Inr (if a \<le> 0 then 0 else py_max 0 (current_bac a w r f h))"
  by (simp add: calculate_bac_value_def)

lemma py_max_nonneg: "0 \<le> py_max 0 x"
  by (simp add: py_max_def)

lemma py_max_mono: "x \<le> y \<Longrightarrow> py_max 0 x \<le> py_max 0 y"
  by (simp add: py_max_def)

lemma calculate_bac_value_nonneg: "calculate_bac_value a w r f h = Inr b \<Longrightarrow> 0 \<le> b"
  by (auto simp: calculate_bac_value_def py_max_def split: if_splits)

lemma current_bac_antimono_hours:
  "h1 \<le> h2 \<Longrightarrow> current_bac a w r f h2 \<le> current_bac a w r f h1"
  by (simp add: current_bac_def METABOLISM_RATE_PER_HOUR_def)

lemma peak_bac_mono_alcohol:
  assumes "0 < w" "0 < r" "0 \<le> f" "a1 \<le> a2"
  shows "peak_bac a1 w r f \<le> peak_bac a2 w r f"
proof -
  have "0 < w * r" using assms by simp
  then have "a1 * WIDMARK_FACTOR / (w * r) \<le> a2 * WIDMARK_FACTOR / (w * r)"
    using assms by (simp add: divide_right_mono WIDMARK_FACTOR_def)
  then show ?thesis
    unfolding peak_bac_def using assms by (intro mult_right_mono) simp_all
qed

lemma peak_bac_antimono_weight:
  assumes "0 < a" "0 < r" "0 \<le> f" "0 < w1" "w1 \<le> w2"
  shows "peak_bac a w2 r f \<le> peak_bac a w1 r f"
proof -
  have pos: "0 < w1 * r" "0 < w2 * r" and le: "w1 * r \<le> w2 * r"
    using assms by simp_all
  have "0 \<le> a * WIDMARK_FACTOR" using assms by (simp add: WIDMARK_FACTOR_def)
  then have "a * WIDMARK_FACTOR / (w2 * r) \<le> a * WIDMARK_FACTOR / (w1 * r)"
    using pos le by (simp add: frac_le)
  then show ?thesis
    unfolding peak_bac_def using assms by (intro mult_right_mono) simp_all
qed

text \<open>The inputs of the sidebar lie in the domain of the monotonicity theorems.\<close>

lemma r_of_positive: "0 < r_of g"
  by (simp add: r_of_def MALE_R_def FEMALE_R_def)

lemma food_factor_of_positive: "0 < food_factor_of fd"
  by (simp add: food_factor_of_def)

lemma weight_input_positive: "weight_input v = Some w \<Longrightarrow> 0 < w"
  by (simp add: weight_input_def number_input_def split: if_splits)

text \<open>
  C4. For a positive weight and a positive r value the function returns a value, that
  value is never negative, and for \<open>h1 \<le> h2\<close> the value at \<open>h2\<close> is at most the value at
  \<open>h1\<close>: the estimate does not increase with the elapsed hours.
\<close>

theorem C4_elapsed_hours_monotone:
  assumes "0 < w" and "0 < r"
  shows "(\<exists>b. calculate_bac_value a w r f h = Inr b \<and> 0 \<le> b) \<and>
         (\<forall>h1 h2. h1 \<le> h2 \<longrightarrow>
            (\<exists>b1 b2. calculate_bac_value a w r f h1 = Inr b1 \<and>
                     calculate_bac_value a w r f h2 = Inr b2 \<and> b2 \<le> b1))"
  using assms
  by (simp add: calculate_bac_value_returns py_max_nonneg py_max_mono current_bac_antimono_hours)

theorem C4_elapsed_hours_monotone_witness:
  "calculate_bac_value 1 160 0.73 1 0 = Inr (257 / 5840) \<and>
   calculate_bac_value 1 160 0.73 1 2 = Inr (409 / 29200) \<and>
   calculate_bac_value 1 160 0.73 1 3 = Inr 0 \<and>
   (409 / 29200 :: real) \<le> 257 / 5840 \<and> (0 :: real) \<le> 409 / 29200"
  using C4_elapsed_hours_monotone [of 160 "0.73" 1 1 2]
  by (simp add: calculate_bac_value_def current_bac_def peak_bac_def py_max_def
      WIDMARK_FACTOR_def METABOLISM_RATE_PER_HOUR_def)

text \<open>
  C5. With alcohol above 0, a positive weight, a positive r value and a food factor that
  is not negative (it is 1.0, 0.8 or 0.5 in the program), the estimate is monotone in the
  alcohol (more alcohol never gives a smaller value) and antitone in the weight (more
  weight never gives a larger value). Monotone is meant in the weak sense: where the clamp
  yields 0 for both inputs the two values are equal.
\<close>

theorem C5_alcohol_and_weight_monotone:
  assumes "0 < r" and "0 \<le> f"
  shows "(0 < w \<and> 0 < a1 \<and> a1 \<le> a2 \<longrightarrow>
            (\<exists>b1 b2. calculate_bac_value a1 w r f h = Inr b1 \<and>
                     calculate_bac_value a2 w r f h = Inr b2 \<and> b1 \<le> b2)) \<and>
         (0 < a \<and> 0 < w1 \<and> w1 \<le> w2 \<longrightarrow>
            (\<exists>b1 b2. calculate_bac_value a w1 r f h = Inr b1 \<and>
                     calculate_bac_value a w2 r f h = Inr b2 \<and> b2 \<le> b1))"
proof (intro conjI impI)
  assume h: "0 < w \<and> 0 < a1 \<and> a1 \<le> a2"
  then have le: "current_bac a1 w r f h \<le> current_bac a2 w r f h"
    using assms by (simp add: current_bac_def peak_bac_mono_alcohol)
  show "\<exists>b1 b2. calculate_bac_value a1 w r f h = Inr b1 \<and>
                     calculate_bac_value a2 w r f h = Inr b2 \<and> b1 \<le> b2"
    using h assms le by (simp add: calculate_bac_value_returns py_max_mono)
next
  assume h: "0 < a \<and> 0 < w1 \<and> w1 \<le> w2"
  then have le: "current_bac a w2 r f h \<le> current_bac a w1 r f h"
    using assms by (simp add: current_bac_def peak_bac_antimono_weight)
  show "\<exists>b1 b2. calculate_bac_value a w1 r f h = Inr b1 \<and>
                     calculate_bac_value a w2 r f h = Inr b2 \<and> b2 \<le> b1"
    using h assms le by (simp add: calculate_bac_value_returns py_max_mono)
qed

theorem C5_alcohol_and_weight_monotone_witness:
  "calculate_bac_value 1 160 0.73 1 0 = Inr (257 / 5840) \<and>
   calculate_bac_value 2 160 0.73 1 0 = Inr (257 / 2920) \<and>
   calculate_bac_value 1 200 0.73 1 0 = Inr (257 / 7300) \<and>
   (257 / 5840 :: real) \<le> 257 / 2920 \<and> (257 / 7300 :: real) \<le> 257 / 5840"
  using C5_alcohol_and_weight_monotone
          [where r = "0.73" and f = 1 and w = 160 and ?a1.0 = 1 and ?a2.0 = 2 and h = 0
             and a = 1 and ?w1.0 = 160 and ?w2.0 = 200]
  by (simp add: calculate_bac_value_def current_bac_def peak_bac_def py_max_def
      WIDMARK_FACTOR_def METABOLISM_RATE_PER_HOUR_def)

subsection \<open>Rounding to double precision\<close>

lemma round_half_even_error: "\<bar>of_int (round_half_even y) - y\<bar> \<le> 1 / 2"
proof -
  have "of_int \<lfloor>y\<rfloor> \<le> y" "y < of_int \<lfloor>y\<rfloor> + 1"
    by simp_all
  then show ?thesis
    by (auto simp: round_half_even_def Let_def)
qed

lemma double_exponent_eval:
  assumes "x \<noteq> 0" "2 powi e \<le> \<bar>x\<bar>" "\<bar>x\<bar> < 2 powi (e + 1)" "- 1022 \<le> e"
  shows "double_exponent x = e"
proof -
  have a: "2 powr real_of_int e = 2 powi e"
    using powr_real_of_int' [of 2 e] by simp
  have b: "2 powr (real_of_int e + 1) = 2 powi (e + 1)"
    using powr_real_of_int' [of 2 "e + 1"] by simp
  have "\<lfloor>log 2 \<bar>x\<bar>\<rfloor> = e"
    using assms by (subst floor_log_eq_powr_iff) (simp_all add: a b)
  then show ?thesis
    using assms by (simp add: double_exponent_def)
qed

lemma round_double_eval:
  assumes "x \<noteq> 0" "2 powi e \<le> \<bar>x\<bar>" "\<bar>x\<bar> < 2 powi (e + 1)" "- 1022 \<le> e"
  shows "round_double x = of_int (round_half_even (x / 2 powi (e - 52))) * 2 powi (e - 52)"
  using assms by (simp add: round_double_def double_exponent_eval)

lemma double_exponent_spacing:
  assumes "x \<noteq> 0"
  shows "2 powi (double_exponent x - 52) / 2 \<le> \<bar>x\<bar> / 2 ^ 53 + 1 / 2 ^ 1075"
proof (cases "- 1022 \<le> \<lfloor>log 2 \<bar>x\<bar>\<rfloor>")
  case True
  define e where "e = \<lfloor>log 2 \<bar>x\<bar>\<rfloor>"
  have "real_of_int e \<le> log 2 \<bar>x\<bar>"
    by (simp add: e_def)
  then have "2 powr real_of_int e \<le> \<bar>x\<bar>"
    using assms by (simp add: le_log_iff)
  then have le: "2 powi e \<le> \<bar>x\<bar>"
    using powr_real_of_int' [of 2 e] by simp
  have "double_exponent x = e"
    using True by (simp add: double_exponent_def e_def)
  moreover have "(2::real) powi (e - 52) = 2 powi e / 2 ^ 52"
    by (simp add: power_int_diff)
  ultimately have "(2::real) powi (double_exponent x - 52) / 2 = 2 powi e / 2 ^ 53"
    by simp
  also have "\<dots> \<le> \<bar>x\<bar> / 2 ^ 53"
    using le by (simp add: divide_right_mono)
  finally show ?thesis
    by (simp add: add_increasing2)
next
  case False
  then have "double_exponent x = - 1022"
    by (simp add: double_exponent_def)
  then have "(2::real) powi (double_exponent x - 52) / 2 = 1 / 2 ^ 1075"
    by (simp add: power_int_minus field_simps)
  then show ?thesis
    by simp
qed

lemma round_double_error:
  "\<bar>round_double x - x\<bar> \<le> unit_roundoff * \<bar>x\<bar> + underflow_unit"
proof (cases "x = 0")
  case True
  then show ?thesis by (simp add: round_double_def unit_roundoff_def underflow_unit_def)
next
  case False
  define q :: real where "q = 2 powi (double_exponent x - 52)"
  have q: "0 < q" by (simp add: q_def)
  have "round_double x - x = (of_int (round_half_even (x / q)) - x / q) * q"
    using False q by (simp add: round_double_def q_def field_simps)
  then have "\<bar>round_double x - x\<bar> = \<bar>of_int (round_half_even (x / q)) - x / q\<bar> * q"
    using q by (simp add: abs_mult)
  also have "\<dots> \<le> 1 / 2 * q"
    using round_half_even_error [of "x / q"] q by (intro mult_right_mono) simp_all
  also have "\<dots> \<le> \<bar>x\<bar> / 2 ^ 53 + 1 / 2 ^ 1075"
    using double_exponent_spacing [OF False] by (simp add: q_def)
  finally show ?thesis
    by (simp add: unit_roundoff_def underflow_unit_def)
qed

lemma unit_roundoff_bounds: "0 \<le> unit_roundoff" "unit_roundoff \<le> 1 / 40"
  by (simp_all add: unit_roundoff_def)

lemma underflow_unit_nonneg: "0 \<le> underflow_unit"
  by (simp add: underflow_unit_def)

text \<open>The two steps of the error analysis, as facts of arithmetic.\<close>

lemma term_error_step:
  fixes u h v a c t :: real
  assumes u: "0 \<le> u" "u \<le> 1 / 40" and h: "0 \<le> h"
    and v: "0 \<le> v" "v \<le> 40" and a: "0 \<le> a"
    and c: "\<bar>c - a / 100\<bar> \<le> u * \<bar>a / 100\<bar> + h"
    and t: "\<bar>t - v * c\<bar> \<le> u * \<bar>v * c\<bar> + h"
  shows "\<bar>t - v * a / 100\<bar> \<le> ((1 + u)\<^sup>2 - 1) * (v * a / 100) + 42 * h"
proof -
  define p where "p = v * a / 100"
  have p: "0 \<le> p" using v a by (simp add: p_def)
  have "v * c - p = v * (c - a / 100)"
    by (simp add: p_def algebra_simps)
  then have "\<bar>v * c - p\<bar> = v * \<bar>c - a / 100\<bar>"
    using v by (simp add: abs_mult)
  also have "\<dots> \<le> v * (u * \<bar>a / 100\<bar> + h)"
    using c v by (intro mult_left_mono) simp_all
  also have "\<dots> = u * p + v * h"
    using a by (simp add: p_def algebra_simps)
  also have "\<dots> \<le> u * p + 40 * h"
    using v h by (simp add: mult_right_mono)
  finally have vc: "\<bar>v * c - p\<bar> \<le> u * p + 40 * h" .
  have "\<bar>v * c\<bar> \<le> \<bar>v * c - p\<bar> + \<bar>p\<bar>"
    by simp
  with vc p have avc: "\<bar>v * c\<bar> \<le> p + u * p + 40 * h"
    by simp
  have "u * \<bar>v * c\<bar> \<le> u * (p + u * p + 40 * h)"
    using avc u by (intro mult_left_mono) simp_all
  with t have tvc: "\<bar>t - v * c\<bar> \<le> u * (p + u * p + 40 * h) + h"
    by simp
  have uh: "u * h \<le> h / 40"
    using u h mult_right_mono [of u "1 / 40" h] by simp
  have "\<bar>t - p\<bar> \<le> \<bar>t - v * c\<bar> + \<bar>v * c - p\<bar>"
    by simp
  also have "\<dots> \<le> u * (p + u * p + 40 * h) + h + (u * p + 40 * h)"
    using tvc vc by simp
  also have "\<dots> = ((1 + u)\<^sup>2 - 1) * p + 41 * h + 40 * (u * h)"
    by (simp add: power2_eq_square algebra_simps)
  also have "\<dots> \<le> ((1 + u)\<^sup>2 - 1) * p + 42 * h"
    using uh by simp
  finally show ?thesis
    by (simp add: p_def)
qed

lemma sum_error_step:
  fixes U h S p E D E' W :: real
  assumes U: "1 \<le> U" and W: "1 \<le> W" and h: "0 \<le> h" and S: "0 \<le> S" and p: "0 \<le> p"
    and E: "E \<le> (U\<^sup>2 * W - 1) * S + 43 * real n * W * h"
    and D: "D \<le> (U\<^sup>2 - 1) * p + 42 * h"
    and E': "E' \<le> U * (E + D) + (U - 1) * (S + p) + h"
  shows "E' \<le> (U ^ 3 * W - 1) * (S + p) + 43 * (real n + 1) * (U * W) * h"
proof -
  have "U * (E + D) \<le> U * ((U\<^sup>2 * W - 1) * S + 43 * real n * W * h + ((U\<^sup>2 - 1) * p + 42 * h))"
    using E D U by (intro mult_left_mono) simp_all
  with E' have "E' \<le> U * ((U\<^sup>2 * W - 1) * S + 43 * real n * W * h + ((U\<^sup>2 - 1) * p + 42 * h))
      + (U - 1) * (S + p) + h"
    by simp
  also have "\<dots> = (U ^ 3 * W - 1) * S + (U ^ 3 - 1) * p + 43 * real n * (U * W) * h
      + (42 * U + 1) * h"
    by (simp add: power2_eq_square power3_eq_cube algebra_simps)
  also have "\<dots> \<le> (U ^ 3 * W - 1) * S + (U ^ 3 * W - 1) * p + 43 * real n * (U * W) * h
      + 43 * (U * W) * h"
  proof -
    have "U ^ 3 * 1 \<le> U ^ 3 * W"
      using U W by (intro mult_left_mono) simp_all
    then have 1: "(U ^ 3 - 1) * p \<le> (U ^ 3 * W - 1) * p"
      using p by (intro mult_right_mono) simp_all
    have "U * 1 \<le> U * W"
      using U W by (intro mult_left_mono) simp_all
    then have uw: "U \<le> U * W"
      by (simp only: mult_1_right)
    from uw U have "42 * U + 1 \<le> 43 * (U * W)"
      by linarith
    then have 2: "(42 * U + 1) * h \<le> 43 * (U * W) * h"
      using h by (intro mult_right_mono) simp_all
    from 1 2 show ?thesis by simp
  qed
  also have "\<dots> = (U ^ 3 * W - 1) * (S + p) + 43 * (real n + 1) * (U * W) * h"
    by (simp add: algebra_simps)
  finally show ?thesis .
qed

subsection \<open>The total alcohol\<close>

lemma drink_alcohol_error:
  assumes "drink_in_range d"
  shows "\<bar>drink_alcohol d - volume d * abv d / 100\<bar>
           \<le> ((1 + unit_roundoff)\<^sup>2 - 1) * (volume d * abv d / 100) + 42 * underflow_unit"
proof (rule term_error_step [where c = "float_div (abv d) 100"])
  show "0 \<le> unit_roundoff"
    by (rule unit_roundoff_bounds)
  show "unit_roundoff \<le> 1 / 40"
    by (rule unit_roundoff_bounds)
  show "0 \<le> underflow_unit"
    by (rule underflow_unit_nonneg)
  show "0 \<le> volume d" "volume d \<le> 40" "0 \<le> abv d"
    using assms by (simp_all add: drink_in_range_def)
  show "\<bar>float_div (abv d) 100 - abv d / 100\<bar> \<le> unit_roundoff * \<bar>abv d / 100\<bar> + underflow_unit"
    unfolding float_div_def by (rule round_double_error)
  show "\<bar>drink_alcohol d - volume d * float_div (abv d) 100\<bar>
          \<le> unit_roundoff * \<bar>volume d * float_div (abv d) 100\<bar> + underflow_unit"
    unfolding drink_alcohol_def float_mul_def by (rule round_double_error)
qed

lemma total_alcohol_oz_Nil: "total_alcohol_oz [] = 0"
  by (simp add: total_alcohol_oz_def py_sum_def)

lemma total_alcohol_oz_snoc:
  "total_alcohol_oz (ds @ [d]) = float_add (total_alcohol_oz ds) (drink_alcohol d)"
  by (simp add: total_alcohol_oz_def py_sum_def)

lemma spec_total_alcohol_snoc:
  "spec_total_alcohol (ds @ [d]) = spec_total_alcohol ds + volume d * abv d / 100"
  by (simp add: spec_total_alcohol_def)

lemma spec_total_alcohol_nonneg:
  "\<forall>d\<in>set ds. drink_in_range d \<Longrightarrow> 0 \<le> spec_total_alcohol ds"
  unfolding spec_total_alcohol_def
  by (rule sum_list_nonneg) (auto simp: drink_in_range_def)

lemma spec_total_alcohol_mset:
  assumes "mset ds' = mset ds"
  shows "spec_total_alcohol ds' = spec_total_alcohol ds"
proof -
  let ?f = "\<lambda>d. volume d * abv d / 100"
  have m: "mset (map ?f ds') = mset (map ?f ds)"
    using assms by simp
  have "sum_list (map ?f ds') = sum_list (map ?f ds)"
    using m by (metis sum_mset_sum_list)
  then show ?thesis
    by (simp only: spec_total_alcohol_def)
qed

lemma total_alcohol_oz_error:
  "\<forall>d\<in>set ds. drink_in_range d \<Longrightarrow>
     \<bar>total_alcohol_oz ds - spec_total_alcohol ds\<bar>
       \<le> total_alcohol_error_bound (length ds) (spec_total_alcohol ds)"
proof (induction ds rule: rev_induct)
  case Nil
  show ?case
    by (simp add: total_alcohol_oz_Nil spec_total_alcohol_def total_alcohol_error_bound_def)
next
  case (snoc d ds)
  define U where "U = 1 + unit_roundoff"
  define W where "W = U ^ length ds"
  define S where "S = spec_total_alcohol ds"
  define p where "p = volume d * abv d / 100"
  define s where "s = total_alcohol_oz ds"
  define t where "t = drink_alcohol d"
  have range: "\<forall>d\<in>set ds. drink_in_range d" and d: "drink_in_range d"
    using snoc.prems by simp_all
  have U: "1 \<le> U"
    using unit_roundoff_bounds by (simp add: U_def)
  then have W: "1 \<le> W"
    by (simp add: W_def)
  have S: "0 \<le> S"
    using range by (simp add: S_def spec_total_alcohol_nonneg)
  have p: "0 \<le> p"
    using d by (simp add: p_def drink_in_range_def)
  have pw: "(1 + unit_roundoff) ^ (length ds + 2) = U\<^sup>2 * W"
    unfolding U_def W_def power_add by (rule mult.commute)
  have E: "\<bar>s - S\<bar> \<le> (U\<^sup>2 * W - 1) * S + 43 * real (length ds) * W * underflow_unit"
    using snoc.IH [OF range]
    unfolding total_alcohol_error_bound_def pw
    by (simp only: s_def S_def W_def U_def)
  have D: "\<bar>t - p\<bar> \<le> (U\<^sup>2 - 1) * p + 42 * underflow_unit"
    using drink_alcohol_error [OF d] by (simp add: t_def p_def U_def)
  have r: "\<bar>float_add s t - (s + t)\<bar> \<le> unit_roundoff * \<bar>s + t\<bar> + underflow_unit"
    unfolding float_add_def by (rule round_double_error)
  have "\<bar>s + t\<bar> \<le> \<bar>s - S\<bar> + \<bar>t - p\<bar> + (S + p)"
    using S p by simp
  then have "unit_roundoff * \<bar>s + t\<bar> \<le> unit_roundoff * (\<bar>s - S\<bar> + \<bar>t - p\<bar> + (S + p))"
    using unit_roundoff_bounds by (intro mult_left_mono) simp_all
  with r have r': "\<bar>float_add s t - (s + t)\<bar>
      \<le> unit_roundoff * (\<bar>s - S\<bar> + \<bar>t - p\<bar> + (S + p)) + underflow_unit"
    by simp
  have "\<bar>float_add s t - (S + p)\<bar> \<le> \<bar>float_add s t - (s + t)\<bar> + \<bar>s - S\<bar> + \<bar>t - p\<bar>"
    by simp
  also have "\<dots> \<le> unit_roundoff * (\<bar>s - S\<bar> + \<bar>t - p\<bar> + (S + p)) + underflow_unit
      + \<bar>s - S\<bar> + \<bar>t - p\<bar>"
    using r' by simp
  also have "\<dots> = U * (\<bar>s - S\<bar> + \<bar>t - p\<bar>) + (U - 1) * (S + p) + underflow_unit"
    by (simp add: U_def algebra_simps)
  finally have E': "\<bar>float_add s t - (S + p)\<bar>
      \<le> U * (\<bar>s - S\<bar> + \<bar>t - p\<bar>) + (U - 1) * (S + p) + underflow_unit" .
  have main: "\<bar>float_add s t - (S + p)\<bar>
      \<le> (U ^ 3 * W - 1) * (S + p) + 43 * (real (length ds) + 1) * (U * W) * underflow_unit"
    by (rule sum_error_step [OF U W underflow_unit_nonneg S p E D E'])
  have pw3: "(1 + unit_roundoff) ^ (length (ds @ [d]) + 2) = U ^ 3 * W"
    by (simp add: U_def W_def power_add power3_eq_cube power2_eq_square)
  have pw1: "(1 + unit_roundoff) ^ length (ds @ [d]) = U * W"
    by (simp add: U_def W_def)
  have bound: "total_alcohol_error_bound (length (ds @ [d])) (spec_total_alcohol (ds @ [d]))
      = (U ^ 3 * W - 1) * (S + p) + 43 * (real (length ds) + 1) * (U * W) * underflow_unit"
    unfolding total_alcohol_error_bound_def pw3 pw1 spec_total_alcohol_snoc
    by (simp add: S_def p_def)
  have lhs: "total_alcohol_oz (ds @ [d]) - spec_total_alcohol (ds @ [d]) = float_add s t - (S + p)"
    by (simp add: total_alcohol_oz_snoc spec_total_alcohol_snoc s_def t_def S_def p_def)
  show ?case
    unfolding bound lhs by (rule main)
qed

text \<open>The roundings of three concrete totals, one operation after the other.\<close>

lemma double_eval_1: "float_div 10 100 = 3602879701896397 / 36028797018963968"
  unfolding float_div_def
  by (subst round_double_eval [where e = "-4"])
     (simp_all add: round_half_even_def power_int_minus)

lemma double_eval_2: "float_mul 1 (3602879701896397 / 36028797018963968) = 3602879701896397 / 36028797018963968"
  unfolding float_mul_def
  by (subst round_double_eval [where e = "-4"])
     (simp_all add: round_half_even_def power_int_minus)

lemma double_eval_3: "float_add 0 (3602879701896397 / 36028797018963968) = 3602879701896397 / 36028797018963968"
  unfolding float_add_def
  by (subst round_double_eval [where e = "-4"])
     (simp_all add: round_half_even_def power_int_minus)

lemma double_eval_4: "float_mul 2 (3602879701896397 / 36028797018963968) = 3602879701896397 / 18014398509481984"
  unfolding float_mul_def
  by (subst round_double_eval [where e = "-3"])
     (simp_all add: round_half_even_def power_int_minus)

lemma double_eval_5: "float_add (3602879701896397 / 36028797018963968) (3602879701896397 / 18014398509481984) = 1351079888211149 / 4503599627370496"
  unfolding float_add_def
  by (subst round_double_eval [where e = "-2"])
     (simp_all add: round_half_even_def power_int_minus)

lemma double_eval_6: "float_mul 3 (3602879701896397 / 36028797018963968) = 1351079888211149 / 4503599627370496"
  unfolding float_mul_def
  by (subst round_double_eval [where e = "-2"])
     (simp_all add: round_half_even_def power_int_minus)

lemma double_eval_7: "float_add (1351079888211149 / 4503599627370496) (1351079888211149 / 4503599627370496) = 1351079888211149 / 2251799813685248"
  unfolding float_add_def
  by (subst round_double_eval [where e = "-1"])
     (simp_all add: round_half_even_def power_int_minus)

lemma double_eval_8: "float_add 0 (1351079888211149 / 4503599627370496) = 1351079888211149 / 4503599627370496"
  unfolding float_add_def
  by (subst round_double_eval [where e = "-2"])
     (simp_all add: round_half_even_def power_int_minus)

lemma double_eval_9: "float_add (1351079888211149 / 4503599627370496) (3602879701896397 / 18014398509481984) = 1 / 2"
  unfolding float_add_def
  by (subst round_double_eval [where e = "-1"])
     (simp_all add: round_half_even_def power_int_minus)

lemma double_eval_10: "float_add (1 / 2) (3602879701896397 / 36028797018963968) = 5404319552844595 / 9007199254740992"
  unfolding float_add_def
  by (subst round_double_eval [where e = "-1"])
     (simp_all add: round_half_even_def power_int_minus)

lemma double_eval_11: "float_div 5 100 = 3602879701896397 / 72057594037927936"
  unfolding float_div_def
  by (subst round_double_eval [where e = "-5"])
     (simp_all add: round_half_even_def power_int_minus)

lemma double_eval_12: "float_mul 12 (3602879701896397 / 72057594037927936) = 1351079888211149 / 2251799813685248"
  unfolding float_mul_def
  by (subst round_double_eval [where e = "-1"])
     (simp_all add: round_half_even_def power_int_minus)

lemma double_eval_13: "float_add 0 (1351079888211149 / 2251799813685248) = 1351079888211149 / 2251799813685248"
  unfolding float_add_def
  by (subst round_double_eval [where e = "-1"])
     (simp_all add: round_half_even_def power_int_minus)

lemma total_alcohol_oz_one_beer:
  "total_alcohol_oz [\<lparr>volume = 12, abv = 5\<rparr>] = 1351079888211149 / 2251799813685248"
  by (simp add: total_alcohol_oz_def py_sum_def drink_alcohol_def
      double_eval_11 double_eval_12 double_eval_13)

lemma total_alcohol_oz_ascending:
  "total_alcohol_oz [\<lparr>volume = 1, abv = 10\<rparr>, \<lparr>volume = 2, abv = 10\<rparr>, \<lparr>volume = 3, abv = 10\<rparr>]
     = 1351079888211149 / 2251799813685248"
  by (simp add: total_alcohol_oz_def py_sum_def drink_alcohol_def
      double_eval_1 double_eval_2 double_eval_3 double_eval_4 double_eval_5 double_eval_6
      double_eval_7)

lemma total_alcohol_oz_descending:
  "total_alcohol_oz [\<lparr>volume = 3, abv = 10\<rparr>, \<lparr>volume = 2, abv = 10\<rparr>, \<lparr>volume = 1, abv = 10\<rparr>]
     = 5404319552844595 / 9007199254740992"
  by (simp add: total_alcohol_oz_def py_sum_def drink_alcohol_def
      double_eval_1 double_eval_2 double_eval_4 double_eval_6 double_eval_8 double_eval_9
      double_eval_10)

text \<open>
  C8, amended. The total of line 142 is the sum of \<open>volume * (abv / 100)\<close> taken from left
  to right in double precision. For drinks with a volume in \<open>[0, 40]\<close> and an ABV in
  \<open>[0, 100]\<close> it differs from the exact sum of \<open>volume * abv / 100\<close> by at most the rounding
  bound of the list's length and exact sum. The exact sum is the same for every
  permutation of the list; the computed totals of two permutations differ by at most
  twice the bound.
\<close>

theorem C8_total_alcohol_rounding:
  assumes "\<forall>d\<in>set ds. drink_in_range d"
  shows "\<bar>total_alcohol_oz ds - spec_total_alcohol ds\<bar>
           \<le> total_alcohol_error_bound (length ds) (spec_total_alcohol ds) \<and>
         (\<forall>ds'. mset ds' = mset ds \<longrightarrow>
            spec_total_alcohol ds' = spec_total_alcohol ds \<and>
            \<bar>total_alcohol_oz ds' - total_alcohol_oz ds\<bar>
              \<le> 2 * total_alcohol_error_bound (length ds) (spec_total_alcohol ds))"
proof (intro conjI allI impI)
  show e: "\<bar>total_alcohol_oz ds - spec_total_alcohol ds\<bar>
             \<le> total_alcohol_error_bound (length ds) (spec_total_alcohol ds)"
    using assms by (rule total_alcohol_oz_error)
  fix ds'
  assume m: "mset ds' = mset ds"
  show s: "spec_total_alcohol ds' = spec_total_alcohol ds"
    using m by (rule spec_total_alcohol_mset)
  have "set ds' = set ds" "length ds' = length ds"
    using m by (auto dest: mset_eq_setD mset_eq_length)
  with assms s have e': "\<bar>total_alcohol_oz ds' - spec_total_alcohol ds\<bar>
      \<le> total_alcohol_error_bound (length ds) (spec_total_alcohol ds)"
    using total_alcohol_oz_error [of ds'] by simp
  have "\<bar>total_alcohol_oz ds' - total_alcohol_oz ds\<bar>
      \<le> \<bar>total_alcohol_oz ds' - spec_total_alcohol ds\<bar>
        + \<bar>total_alcohol_oz ds - spec_total_alcohol ds\<bar>"
    by simp
  with e e' show "\<bar>total_alcohol_oz ds' - total_alcohol_oz ds\<bar>
      \<le> 2 * total_alcohol_error_bound (length ds) (spec_total_alcohol ds)"
    by simp
qed

theorem C8_total_alcohol_rounding_witness:
  "\<bar>1351079888211149 / 2251799813685248 - 3 / 5\<bar> \<le> total_alcohol_error_bound 3 (3 / 5) \<and>
   \<bar>5404319552844595 / 9007199254740992 - 1351079888211149 / 2251799813685248\<bar>
     \<le> 2 * total_alcohol_error_bound 3 (3 / 5) \<and>
   total_alcohol_error_bound 3 (3 / 5) \<le> 4 / 10 ^ 16"
proof -
  let ?ds = "[\<lparr>volume = 1, abv = 10\<rparr>, \<lparr>volume = 2, abv = 10\<rparr>, \<lparr>volume = 3 :: real, abv = 10 :: real\<rparr>]"
  let ?ds' = "[\<lparr>volume = 3, abv = 10\<rparr>, \<lparr>volume = 2, abv = 10\<rparr>, \<lparr>volume = 1 :: real, abv = 10 :: real\<rparr>]"
  have range: "\<forall>d\<in>set ?ds. drink_in_range d"
    by (simp add: drink_in_range_def)
  have m: "mset ?ds' = mset ?ds"
    by (simp add: add_mset_commute)
  have sp: "spec_total_alcohol ?ds = 3 / 5"
    by (simp add: spec_total_alcohol_def)
  note c8 = C8_total_alcohol_rounding [OF range]
  have 1: "\<bar>total_alcohol_oz ?ds - spec_total_alcohol ?ds\<bar>
      \<le> total_alcohol_error_bound (length ?ds) (spec_total_alcohol ?ds)"
    by (rule c8 [THEN conjunct1])
  have 2: "\<bar>total_alcohol_oz ?ds' - total_alcohol_oz ?ds\<bar>
      \<le> 2 * total_alcohol_error_bound (length ?ds) (spec_total_alcohol ?ds)"
    by (rule c8 [THEN conjunct2, rule_format, OF m, THEN conjunct2])
  have len: "length ?ds = 3"
    by simp
  have small: "total_alcohol_error_bound 3 (3 / 5) \<le> 4 / 10 ^ 16"
    by (simp add: total_alcohol_error_bound_def unit_roundoff_def underflow_unit_def
        power_divide)
  from 1 2 small show ?thesis
    unfolding total_alcohol_oz_ascending total_alcohol_oz_descending sp len
    by (intro conjI)
qed

text \<open>
  The claim C8 as written fails on three drinks of 1, 2 and 3 ounces at 10 percent: the
  list and its reverse are permutations of each other, and their totals are the doubles
  next to each other at 0.6; the first is not the exact sum \<open>3 / 5\<close> either.
\<close>

theorem C8_order_counterexample:
  "mset [\<lparr>volume = 3, abv = 10\<rparr>, \<lparr>volume = 2, abv = 10\<rparr>, \<lparr>volume = 1 :: real, abv = 10 :: real\<rparr>]
     = mset [\<lparr>volume = 1, abv = 10\<rparr>, \<lparr>volume = 2, abv = 10\<rparr>, \<lparr>volume = 3, abv = 10\<rparr>] \<and>
   total_alcohol_oz [\<lparr>volume = 1, abv = 10\<rparr>, \<lparr>volume = 2, abv = 10\<rparr>, \<lparr>volume = 3, abv = 10\<rparr>]
     = 1351079888211149 / 2251799813685248 \<and>
   total_alcohol_oz [\<lparr>volume = 3, abv = 10\<rparr>, \<lparr>volume = 2, abv = 10\<rparr>, \<lparr>volume = 1, abv = 10\<rparr>]
     = 5404319552844595 / 9007199254740992 \<and>
   total_alcohol_oz [\<lparr>volume = 3, abv = 10\<rparr>, \<lparr>volume = 2, abv = 10\<rparr>, \<lparr>volume = 1, abv = 10\<rparr>]
     \<noteq> total_alcohol_oz [\<lparr>volume = 1, abv = 10\<rparr>, \<lparr>volume = 2, abv = 10\<rparr>, \<lparr>volume = 3, abv = 10\<rparr>] \<and>
   spec_total_alcohol [\<lparr>volume = 1, abv = 10\<rparr>, \<lparr>volume = 2, abv = 10\<rparr>, \<lparr>volume = 3, abv = 10\<rparr>]
     = 3 / 5 \<and>
   total_alcohol_oz [\<lparr>volume = 1, abv = 10\<rparr>, \<lparr>volume = 2, abv = 10\<rparr>, \<lparr>volume = 3, abv = 10\<rparr>]
     \<noteq> spec_total_alcohol
         [\<lparr>volume = 1, abv = 10\<rparr>, \<lparr>volume = 2, abv = 10\<rparr>, \<lparr>volume = 3, abv = 10\<rparr>]"
  by (simp add: total_alcohol_oz_ascending total_alcohol_oz_descending add_mset_commute
      spec_total_alcohol_def)

subsection \<open>The monitoring state\<close>

lemma init_invariant: "monitoring_invariant init_session_state"
  by (simp add: monitoring_invariant_def init_session_state_def)

lemma remove_drink_callback_fields:
  "remove_drink_callback i s = Inr s' \<Longrightarrow>
     start_monitoring s' = start_monitoring s \<and>
     monitoring_start_time s' = monitoring_start_time s \<and>
     first_drink_offset_hours s' = first_drink_offset_hours s"
  unfolding remove_drink_callback_def
  by (cases "list_pop (drinks s) i") (auto split: if_splits)

lemma add_drink_invariant:
  "monitoring_invariant (add_drink_callback s) = monitoring_invariant s"
  by (simp add: monitoring_invariant_def add_drink_callback_def)

lemma remove_drink_invariant:
  "remove_drink_callback i s = Inr s' \<Longrightarrow> monitoring_invariant s' = monitoring_invariant s"
  using remove_drink_callback_fields [of i s s'] by (simp add: monitoring_invariant_def)

lemma set_drink_volume_invariant:
  "set_drink_volume i v s = Some s' \<Longrightarrow> monitoring_invariant s' = monitoring_invariant s"
  unfolding set_drink_volume_def
  by (cases "number_input 0.0 40.0 v"; cases "i < length (drinks s)")
     (auto simp: monitoring_invariant_def)

lemma set_drink_abv_invariant:
  "set_drink_abv i v s = Some s' \<Longrightarrow> monitoring_invariant s' = monitoring_invariant s"
  unfolding set_drink_abv_def
  by (cases "number_input 0.0 100.0 v"; cases "i < length (drinks s)")
     (auto simp: monitoring_invariant_def)

lemma set_offset_invariant:
  "set_first_drink_offset_hours v s = Some s' \<Longrightarrow>
     monitoring_invariant s' = monitoring_invariant s"
  unfolding set_first_drink_offset_hours_def
  by (cases "number_input 0.0 24.0 v") (auto simp: monitoring_invariant_def)

lemma start_handler_invariant: "monitoring_invariant (start_handler now now2 s)"
  by (simp add: monitoring_invariant_def start_handler_def)

lemma stop_handler_invariant: "monitoring_invariant (stop_handler s)"
  by (simp add: monitoring_invariant_def stop_handler_def)

lemma start_button_result:
  "start_button now now2 s = Some s' \<Longrightarrow> s' = start_handler now now2 s"
  by (cases "start_disabled s") (simp_all add: start_button_def)

lemma stop_button_result: "stop_button s = Some s' \<Longrightarrow> s' = stop_handler s"
  by (cases "stop_disabled s") (simp_all add: stop_button_def)

lemma step_preserves_invariant:
  assumes "monitoring_invariant s" and "step e s = Some s'"
  shows "monitoring_invariant s'"
proof (cases e)
  case Add_Drink
  with assms show ?thesis by (auto simp: add_drink_invariant)
next
  case (Remove_Drink i)
  with assms obtain "remove_drink_callback i s = Inr s'"
    by (cases "remove_drink_callback i s") simp_all
  with assms show ?thesis by (simp add: remove_drink_invariant)
next
  case (Set_Volume i v)
  with assms show ?thesis by (simp add: set_drink_volume_invariant)
next
  case (Set_Abv i v)
  with assms show ?thesis by (simp add: set_drink_abv_invariant)
next
  case (Set_Offset v)
  with assms show ?thesis by (simp add: set_offset_invariant)
next
  case (Start_Monitoring now now2)
  with assms have "s' = start_handler now now2 s" by (simp add: start_button_result)
  then show ?thesis by (simp add: start_handler_invariant)
next
  case Stop_Monitoring
  with assms have "s' = stop_handler s" by (simp add: stop_button_result)
  then show ?thesis by (simp add: stop_handler_invariant)
qed

lemma reachable_invariant: "reachable s \<Longrightarrow> monitoring_invariant s"
proof (induction rule: reachable.induct)
  case reachable_init
  show ?case by (rule init_invariant)
next
  case (reachable_step s e s')
  then show ?case by (simp add: step_preserves_invariant)
qed

lemma reachable_example:
  "reachable \<lparr>drinks = [\<lparr>volume = 12, abv = 5\<rparr>], start_monitoring = False,
      monitoring_start_time = None, first_drink_offset_hours = 1.5,
      last_calculated_bac_time = None\<rparr>"
proof -
  have 1: "step Add_Drink init_session_state =
      Some \<lparr>drinks = [\<lparr>volume = 0, abv = 0\<rparr>], start_monitoring = False,
        monitoring_start_time = None, first_drink_offset_hours = 0,
        last_calculated_bac_time = None\<rparr>"
    by (simp add: add_drink_callback_def init_session_state_def)
  have 2: "step (Set_Volume 0 12)
      \<lparr>drinks = [\<lparr>volume = 0, abv = 0\<rparr>], start_monitoring = False,
        monitoring_start_time = None, first_drink_offset_hours = 0,
        last_calculated_bac_time = None\<rparr> =
      Some \<lparr>drinks = [\<lparr>volume = 12, abv = 0\<rparr>], start_monitoring = False,
        monitoring_start_time = None, first_drink_offset_hours = 0,
        last_calculated_bac_time = None\<rparr>"
    by (simp add: set_drink_volume_def number_input_def)
  have 3: "step (Set_Abv 0 5)
      \<lparr>drinks = [\<lparr>volume = 12, abv = 0\<rparr>], start_monitoring = False,
        monitoring_start_time = None, first_drink_offset_hours = 0,
        last_calculated_bac_time = None\<rparr> =
      Some \<lparr>drinks = [\<lparr>volume = 12, abv = 5\<rparr>], start_monitoring = False,
        monitoring_start_time = None, first_drink_offset_hours = 0,
        last_calculated_bac_time = None\<rparr>"
    by (simp add: set_drink_abv_def number_input_def)
  have 4: "step (Set_Offset 1.5)
      \<lparr>drinks = [\<lparr>volume = 12, abv = 5\<rparr>], start_monitoring = False,
        monitoring_start_time = None, first_drink_offset_hours = 0,
        last_calculated_bac_time = None\<rparr> =
      Some \<lparr>drinks = [\<lparr>volume = 12, abv = 5\<rparr>], start_monitoring = False,
        monitoring_start_time = None, first_drink_offset_hours = 1.5,
        last_calculated_bac_time = None\<rparr>"
    by (simp add: set_first_drink_offset_hours_def number_input_def)
  show ?thesis
    by (rule reachable_step [OF _ 4], rule reachable_step [OF _ 3],
        rule reachable_step [OF _ 2], rule reachable_step [OF _ 1], rule reachable_init)
qed

text \<open>
  C6. The invariant (a start time is stored iff monitoring is on) holds in the initial
  state, is preserved by every operation on the session and so holds in every reachable
  state. The start handler sets the flag and the start time together, the stop handler
  clears both together, and so does each button when it can be clicked.
\<close>

theorem C6_monitoring_invariant:
  "monitoring_invariant init_session_state \<and>
   (\<forall>e s'. monitoring_invariant s \<and> step e s = Some s' \<longrightarrow> monitoring_invariant s') \<and>
   (reachable s \<longrightarrow> monitoring_invariant s) \<and>
   start_monitoring (start_handler now now2 s) \<and>
   monitoring_start_time (start_handler now now2 s) = Some now \<and>
   \<not> start_monitoring (stop_handler s) \<and>
   monitoring_start_time (stop_handler s) = None \<and>
   (\<forall>s'. start_button now now2 s = Some s' \<longrightarrow>
      start_monitoring s' \<and> monitoring_start_time s' = Some now) \<and>
   (\<forall>s'. stop_button s = Some s' \<longrightarrow>
      \<not> start_monitoring s' \<and> monitoring_start_time s' = None)"
proof (intro conjI allI impI)
  show "monitoring_invariant init_session_state"
    by (rule init_invariant)
next
  fix e s'
  assume "monitoring_invariant s \<and> step e s = Some s'"
  then show "monitoring_invariant s'"
    using step_preserves_invariant [of s e s'] by simp
next
  assume "reachable s"
  then show "monitoring_invariant s"
    by (rule reachable_invariant)
next
  show "start_monitoring (start_handler now now2 s)"
    by (simp add: start_handler_def)
next
  show "monitoring_start_time (start_handler now now2 s) = Some now"
    by (simp add: start_handler_def)
next
  show "\<not> start_monitoring (stop_handler s)"
    by (simp add: stop_handler_def)
next
  show "monitoring_start_time (stop_handler s) = None"
    by (simp add: stop_handler_def)
next
  fix s'
  assume a: "start_button now now2 s = Some s'"
  show "start_monitoring s'"
    using start_button_result [OF a] by (simp add: start_handler_def)
  show "monitoring_start_time s' = Some now"
    using start_button_result [OF a] by (simp add: start_handler_def)
next
  fix s'
  assume a: "stop_button s = Some s'"
  show "\<not> start_monitoring s'"
    using stop_button_result [OF a] by (simp add: stop_handler_def)
  show "monitoring_start_time s' = None"
    using stop_button_result [OF a] by (simp add: stop_handler_def)
qed

theorem C6_monitoring_invariant_witness:
  "monitoring_invariant
     \<lparr>drinks = [\<lparr>volume = 12, abv = 5\<rparr>], start_monitoring = False,
      monitoring_start_time = None, first_drink_offset_hours = 1.5,
      last_calculated_bac_time = None\<rparr> \<and>
   step (Start_Monitoring 1000 1001)
     \<lparr>drinks = [\<lparr>volume = 12, abv = 5\<rparr>], start_monitoring = False,
      monitoring_start_time = None, first_drink_offset_hours = 1.5,
      last_calculated_bac_time = None\<rparr>
   = Some \<lparr>drinks = [\<lparr>volume = 12, abv = 5\<rparr>], start_monitoring = True,
      monitoring_start_time = Some 1000, first_drink_offset_hours = 1.5,
      last_calculated_bac_time = Some 1001\<rparr> \<and>
   monitoring_invariant
     \<lparr>drinks = [\<lparr>volume = 12, abv = 5\<rparr>], start_monitoring = True,
      monitoring_start_time = Some 1000, first_drink_offset_hours = 1.5,
      last_calculated_bac_time = Some 1001\<rparr> \<and>
   step Stop_Monitoring
     \<lparr>drinks = [\<lparr>volume = 12, abv = 5\<rparr>], start_monitoring = True,
      monitoring_start_time = Some 1000, first_drink_offset_hours = 1.5,
      last_calculated_bac_time = Some 1001\<rparr>
   = Some \<lparr>drinks = [\<lparr>volume = 12, abv = 5\<rparr>], start_monitoring = False,
      monitoring_start_time = None, first_drink_offset_hours = 1.5,
      last_calculated_bac_time = None\<rparr>"
proof -
  let ?idle = "\<lparr>drinks = [\<lparr>volume = 12, abv = 5\<rparr>], start_monitoring = False,
      monitoring_start_time = None, first_drink_offset_hours = 1.5,
      last_calculated_bac_time = None\<rparr>"
  let ?on = "\<lparr>drinks = [\<lparr>volume = 12, abv = 5\<rparr>], start_monitoring = True,
      monitoring_start_time = Some 1000, first_drink_offset_hours = 1.5,
      last_calculated_bac_time = Some 1001\<rparr>"
  have alc: "total_alcohol_oz [\<lparr>volume = 12, abv = 5\<rparr>] \<noteq> 0"
    by (simp add: total_alcohol_oz_one_beer)
  have i0: "monitoring_invariant ?idle"
    using C6_monitoring_invariant [of ?idle 1000 1001] reachable_example by blast
  have start: "step (Start_Monitoring 1000 1001) ?idle = Some ?on"
    using alc by (simp add: start_button_def start_disabled_def start_handler_def)
  have i1: "monitoring_invariant ?on"
    using C6_monitoring_invariant [of ?idle 1000 1001] i0 start by blast
  have stop: "step Stop_Monitoring ?on = Some ?idle"
    by (simp add: stop_button_def stop_disabled_def stop_handler_def)
  show ?thesis
    using i0 start i1 stop by (intro conjI)
qed

text \<open>
  C7. Stop followed at once by start, for every session state: the first-drink offset and
  the drink list are as before, monitoring is on, the start time is the new current time,
  and at that time the wall clock contributes 0 seconds, so that the total elapsed hours
  are the offset alone. When both buttons deliver their clicks the result is this state of
  the two handlers, and they do deliver them when monitoring is on and the total alcohol
  is not 0.
\<close>

theorem C7_stop_then_start:
  "first_drink_offset_hours (start_handler now now2 (stop_handler s)) = first_drink_offset_hours s \<and>
   drinks (start_handler now now2 (stop_handler s)) = drinks s \<and>
   start_monitoring (start_handler now now2 (stop_handler s)) \<and>
   monitoring_start_time (start_handler now now2 (stop_handler s)) = Some now \<and>
   time_since_monitor_start (start_handler now now2 (stop_handler s)) now = Some 0 \<and>
   total_elapsed_hours (start_handler now now2 (stop_handler s)) now
     = Some (first_drink_offset_hours s) \<and>
   (\<forall>s1 s2. stop_button s = Some s1 \<and> start_button now now2 s1 = Some s2 \<longrightarrow>
      s2 = start_handler now now2 (stop_handler s)) \<and>
   (start_monitoring s \<and> total_alcohol_oz (drinks s) \<noteq> 0 \<longrightarrow>
      stop_button s = Some (stop_handler s) \<and>
      start_button now now2 (stop_handler s) = Some (start_handler now now2 (stop_handler s)))"
proof (intro conjI allI impI)
  show "first_drink_offset_hours (start_handler now now2 (stop_handler s)) = first_drink_offset_hours s"
    by (simp add: start_handler_def stop_handler_def)
next
  show "drinks (start_handler now now2 (stop_handler s)) = drinks s"
    by (simp add: start_handler_def stop_handler_def)
next
  show "start_monitoring (start_handler now now2 (stop_handler s))"
    by (simp add: start_handler_def)
next
  show "monitoring_start_time (start_handler now now2 (stop_handler s)) = Some now"
    by (simp add: start_handler_def)
next
  show "time_since_monitor_start (start_handler now now2 (stop_handler s)) now = Some 0"
    by (simp add: start_handler_def time_since_monitor_start_def total_seconds_def)
next
  show "total_elapsed_hours (start_handler now now2 (stop_handler s)) now
          = Some (first_drink_offset_hours s)"
    by (simp add: start_handler_def stop_handler_def total_elapsed_hours_def
        time_since_monitor_start_def total_seconds_def)
next
  fix s1 s2
  assume a: "stop_button s = Some s1 \<and> start_button now now2 s1 = Some s2"
  then have "s1 = stop_handler s" by (simp add: stop_button_result)
  with a show "s2 = start_handler now now2 (stop_handler s)"
    by (simp add: start_button_result)
next
  assume a: "start_monitoring s \<and> total_alcohol_oz (drinks s) \<noteq> 0"
  then show "stop_button s = Some (stop_handler s)"
    by (simp add: stop_button_def stop_disabled_def)
  from a show "start_button now now2 (stop_handler s)
                 = Some (start_handler now now2 (stop_handler s))"
    by (simp add: start_button_def start_disabled_def stop_handler_def)
qed

theorem C7_stop_then_start_witness:
  "stop_button
     \<lparr>drinks = [\<lparr>volume = 12, abv = 5\<rparr>], start_monitoring = True,
      monitoring_start_time = Some 1000, first_drink_offset_hours = 1.5,
      last_calculated_bac_time = Some 1001\<rparr>
   = Some \<lparr>drinks = [\<lparr>volume = 12, abv = 5\<rparr>], start_monitoring = False,
      monitoring_start_time = None, first_drink_offset_hours = 1.5,
      last_calculated_bac_time = None\<rparr> \<and>
   start_button 7200001000 7200001002
     \<lparr>drinks = [\<lparr>volume = 12, abv = 5\<rparr>], start_monitoring = False,
      monitoring_start_time = None, first_drink_offset_hours = 1.5,
      last_calculated_bac_time = None\<rparr>
   = Some \<lparr>drinks = [\<lparr>volume = 12, abv = 5\<rparr>], start_monitoring = True,
      monitoring_start_time = Some 7200001000, first_drink_offset_hours = 1.5,
      last_calculated_bac_time = Some 7200001002\<rparr> \<and>
   total_elapsed_hours
     \<lparr>drinks = [\<lparr>volume = 12, abv = 5\<rparr>], start_monitoring = True,
      monitoring_start_time = Some 1000, first_drink_offset_hours = 1.5,
      last_calculated_bac_time = Some 1001\<rparr> 7200001000 = Some 3.5 \<and>
   total_elapsed_hours
     \<lparr>drinks = [\<lparr>volume = 12, abv = 5\<rparr>], start_monitoring = True,
      monitoring_start_time = Some 7200001000, first_drink_offset_hours = 1.5,
      last_calculated_bac_time = Some 7200001002\<rparr> 7200001000 = Some 1.5"
proof -
  let ?on = "\<lparr>drinks = [\<lparr>volume = 12, abv = 5\<rparr>], start_monitoring = True,
      monitoring_start_time = Some 1000, first_drink_offset_hours = 1.5,
      last_calculated_bac_time = Some 1001\<rparr>"
  have alc: "total_alcohol_oz [\<lparr>volume = 12, abv = 5\<rparr>] \<noteq> 0"
    by (simp add: total_alcohol_oz_one_beer)
  have before: "total_elapsed_hours ?on 7200001000 = Some 3.5"
    by (simp add: total_elapsed_hours_def time_since_monitor_start_def total_seconds_def)
  note rt = C7_stop_then_start [of 7200001000 7200001002 ?on]
  have en: "start_monitoring ?on \<and> total_alcohol_oz (drinks ?on) \<noteq> 0"
    using alc by simp
  have stop: "stop_button ?on = Some (stop_handler ?on)"
    and start: "start_button 7200001000 7200001002 (stop_handler ?on)
                  = Some (start_handler 7200001000 7200001002 (stop_handler ?on))"
    and after: "total_elapsed_hours (start_handler 7200001000 7200001002 (stop_handler ?on))
                  7200001000 = Some (first_drink_offset_hours ?on)"
    using rt en by blast+
  show ?thesis
    using stop start after before by (simp add: start_handler_def stop_handler_def)
qed

end
